theory Spec2Isabelle
  imports Complex_Main
begin

section \<open>Errors and the random source\<close>

text \<open>
  The program is \<^verbatim>\<open>genetic-algo.py\<close>. Amounts are Python floats; they are modelled as
  exact reals, so rounding error of the float arithmetic is outside the model. The
  amount that \<open>add_ingredient\<close> draws is a numpy integer, and sums and products with it
  are numpy floats; they are modelled as the same reals, with the arithmetic of Python's
  own numbers (a division by a numpy zero gives \<^verbatim>\<open>inf\<close> and a warning where Python's
  division raises ZeroDivisionError). Every exception the program can raise is a value of
  \<open>error\<close>, and a function that can raise returns \<open>error + 'a\<close> with \<open>Inl\<close> for the
  exception.
\<close>

datatype error = ValueError | IndexError | ZeroDivisionError

text \<open>
  A random draw is a real \<open>u\<close>; \<open>frac u\<close> is the uniform sample in \<open>[0, 1)\<close> that the
  library turns into an index or a number. The source reads a global generator; here the
  draws are arguments.
\<close>

definition randbelow :: "real \<Rightarrow> nat \<Rightarrow> nat" where
  "randbelow u n = nat \<lfloor>frac u * real n\<rfloor>"

text \<open>
  \<^verbatim>\<open>random.choice(seq)\<close>: IndexError on an empty sequence. The first function gives
  the position of the chosen element, for the callers that go on to change the chosen
  object in place; the second gives the element.
\<close>

definition random_choice_index :: "real \<Rightarrow> 'a list \<Rightarrow> error + nat" where
  "random_choice_index u xs =
     (if xs = [] then Inl IndexError else Inr (randbelow u (length xs)))"

definition random_choice :: "real \<Rightarrow> 'a list \<Rightarrow> error + 'a" where
  "random_choice u xs = (if xs = [] then Inl IndexError else Inr (xs ! randbelow u (length xs)))"

text \<open>\<^verbatim>\<open>np.random.choice(a)\<close> with one sample and no weights: ValueError on an empty \<open>a\<close>.\<close>

definition np_random_choice_index :: "real \<Rightarrow> 'a list \<Rightarrow> error + nat" where
  "np_random_choice_index u xs =
     (if xs = [] then Inl ValueError else Inr (randbelow u (length xs)))"

definition np_random_choice :: "real \<Rightarrow> 'a list \<Rightarrow> error + 'a" where
  "np_random_choice u xs = (if xs = [] then Inl ValueError else Inr (xs ! randbelow u (length xs)))"

text \<open>\<^verbatim>\<open>np.random.randint(low, high)\<close>: ValueError unless \<open>low < high\<close>.\<close>

definition np_random_randint :: "real \<Rightarrow> nat \<Rightarrow> nat \<Rightarrow> error + nat" where
  "np_random_randint u low high =
     (if high \<le> low then Inl ValueError else Inr (low + randbelow u (high - low)))"

text \<open>\<^verbatim>\<open>random.uniform(a, b)\<close> is \<open>a + (b - a) * random()\<close>.\<close>

definition random_uniform :: "real \<Rightarrow> real \<Rightarrow> real \<Rightarrow> real" where
  "random_uniform u a b = a + (b - a) * frac u"

section \<open>Ingredient\<close>

record Ingredient =
  name :: string
  amount :: real

text \<open>\<^verbatim>\<open>round(x, 2)\<close>: to the nearest multiple of 1/100, ties to the even one.\<close>

definition round_half_even :: "real \<Rightarrow> int" where
  "round_half_even y =
     (let f = \<lfloor>y\<rfloor>; d = y - of_int f
      in if d < 1/2 then f else if 1/2 < d then f + 1 else if even f then f else f + 1)"


definition digit_char :: "nat \<Rightarrow> char" where
  "digit_char d = ''0123456789'' ! d"

text \<open>\<^verbatim>\<open>str(n)\<close> for a non-negative integer.\<close>

fun str_nat :: "nat \<Rightarrow> string" where
  "str_nat n = (if n < 10 then [digit_char n] else str_nat (n div 10) @ [digit_char (n mod 10)])"

declare str_nat.simps [simp del]

text \<open>
  \<^verbatim>\<open>str(round(amount, 2))\<close>: the sign, the integer part, a point and one or two decimals
  (\<^verbatim>\<open>"3.0"\<close>, \<^verbatim>\<open>"0.25"\<close>). Python writes a float of 1e16 and more with an exponent, a
  negative zero as \<^verbatim>\<open>"-0.0"\<close> and a numpy integer without the point; the value read
  back by \<^verbatim>\<open>float\<close> is the same in each case.
\<close>

definition str_round2 :: "real \<Rightarrow> string" where
  "str_round2 x =
     (let k = round_half_even (x * 100); a = nat \<bar>k\<bar>; fp = a mod 100
      in (if k < 0 then ''-'' else '''') @ str_nat (a div 100) @ ''.'' @
         (if fp mod 10 = 0 then [digit_char (fp div 10)]
          else [digit_char (fp div 10), digit_char (fp mod 10)]))"

text \<open>\<^verbatim>\<open>Ingredient.__str__\<close>\<close>

definition str_Ingredient :: "Ingredient \<Rightarrow> string" where
  "str_Ingredient ing = str_round2 (amount ing) @ '' oz '' @ name ing"

section \<open>Reading a line\<close>

text \<open>\<^verbatim>\<open>line.split(" oz ")\<close>: the fields between the leftmost, non-overlapping separators.\<close>

fun split_oz :: "string \<Rightarrow> string list" where
  "split_oz [] = [[]]"
| "split_oz (c # cs) =
     (if take 4 (c # cs) = '' oz '' then [] # split_oz (drop 3 cs)
      else (c # hd (split_oz cs)) # tl (split_oz cs))"

definition digit_of :: "char \<Rightarrow> nat option" where
  "digit_of c = (let n = (of_char c :: nat) in if 48 \<le> n \<and> n \<le> 57 then Some (n - 48) else None)"

fun parse_digits :: "nat \<Rightarrow> string \<Rightarrow> nat option" where
  "parse_digits acc [] = Some acc"
| "parse_digits acc (c # cs) =
     (case digit_of c of None \<Rightarrow> None | Some d \<Rightarrow> parse_digits (10 * acc + d) cs)"

text \<open>
  \<^verbatim>\<open>float(s)\<close> on a plain decimal literal: an optional sign, digits, an optional point and
  digits, at least one digit in all; ValueError otherwise. Python's \<^verbatim>\<open>float\<close> also reads
  exponents, \<^verbatim>\<open>inf\<close>, \<^verbatim>\<open>nan\<close>, underscores and surrounding blanks; those literals are
  not modelled and are rejected here.
\<close>

definition float_py :: "string \<Rightarrow> error + real" where
  "float_py s =
     (let neg = (s \<noteq> [] \<and> hd s = CHR ''-'');
          body = (if s \<noteq> [] \<and> (hd s = CHR ''-'' \<or> hd s = CHR ''+'') then tl s else s);
          ip = takeWhile (\<lambda>c. c \<noteq> CHR ''.'') body;
          fp = drop 1 (dropWhile (\<lambda>c. c \<noteq> CHR ''.'') body)
      in if ip = [] \<and> fp = [] then Inl ValueError
         else case (parse_digits 0 ip, parse_digits 0 fp) of
                (Some i, Some f) \<Rightarrow>
                  Inr ((if neg then - 1 else 1) * (real i + real f / 10 ^ length fp))
              | _ \<Rightarrow> Inl ValueError)"

section \<open>Recipe\<close>

record Recipe =
  recipe_name :: string
  ingredients :: "Ingredient list"

text \<open>
  \<^verbatim>\<open>recipe_dic\<close> is a dictionary, which keeps its keys in insertion order: an
  association list whose keys are distinct. \<open>dic_add\<close> is the body of the
  \<^verbatim>\<open>if name not in recipe_dic.keys()\<close> statement.
\<close>

fun dic_add :: "string \<Rightarrow> real \<Rightarrow> (string \<times> real) list \<Rightarrow> (string \<times> real) list" where
  "dic_add nm amt [] = [(nm, amt)]"
| "dic_add nm amt ((k, curr_amt) # dic) =
     (if k = nm then (k, curr_amt + amt) # dic else (k, curr_amt) # dic_add nm amt dic)"

text \<open>
  One line of the loop: \<^verbatim>\<open>float(information[0])\<close> is evaluated first (ValueError), then
  \<^verbatim>\<open>information[1]\<close> (IndexError when the line has no separator).
\<close>

definition parse_line :: "string \<Rightarrow> error + (string \<times> real)" where
  "parse_line line =
     (let information = split_oz line
      in case float_py (hd information) of
           Inl e \<Rightarrow> Inl e
         | Inr amt \<Rightarrow>
             if length information < 2 then Inl IndexError else Inr (information ! 1, amt))"

fun read_lines :: "string list \<Rightarrow> (string \<times> real) list \<Rightarrow> error + (string \<times> real) list" where
  "read_lines [] recipe_dic = Inr recipe_dic"
| "read_lines (line # ls) recipe_dic =
     (case parse_line line of
        Inl e \<Rightarrow> Inl e
      | Inr (nm, amt) \<Rightarrow> read_lines ls (dic_add nm amt recipe_dic))"

definition make_ingredient_objects :: "Recipe \<Rightarrow> string list \<Rightarrow> error + Recipe" where
  "make_ingredient_objects r recipe_strs =
     (case read_lines recipe_strs [] of
        Inl e \<Rightarrow> Inl e
      | Inr recipe_dic \<Rightarrow>
          Inr (r\<lparr>ingredients := ingredients r @
                 map (\<lambda>(ingr, ingr_amt). \<lparr>name = ingr, amount = ingr_amt\<rparr>) recipe_dic\<rparr>))"

text \<open>\<^verbatim>\<open>Recipe.__init__\<close>\<close>

definition Recipe_init :: "nat \<Rightarrow> string list \<Rightarrow> error + Recipe" where
  "Recipe_init num_new recipe_strs =
     make_ingredient_objects
       \<lparr>recipe_name = ''recipe_'' @ str_nat num_new, ingredients = []\<rparr> recipe_strs"

definition get_fitness :: "Recipe \<Rightarrow> nat" where
  "get_fitness r = length (ingredients r)"

definition get_ingredient_strings :: "Recipe \<Rightarrow> string list" where
  "get_ingredient_strings r = map str_Ingredient (ingredients r)"

subsection \<open>The mutation operators\<close>

text \<open>
  The ingredients of a recipe are distinct objects (each is made by its own constructor
  call and no list shares one), so the object a random choice returns is given by its
  position, \<^verbatim>\<open>set_amount\<close> and \<^verbatim>\<open>set_name\<close> on it are updates at that position, and
  \<^verbatim>\<open>list.remove\<close> of it (Ingredient defines no \<^verbatim>\<open>__eq__\<close>, so the comparison is
  identity) deletes that position.
\<close>

definition remove_at :: "nat \<Rightarrow> 'a list \<Rightarrow> 'a list" where
  "remove_at i xs = take i xs @ drop (Suc i) xs"

definition change_amount :: "real \<Rightarrow> real \<Rightarrow> Recipe \<Rightarrow> error + Recipe" where
  "change_amount u1 u2 r =
     (case np_random_choice_index u1 (ingredients r) of
        Inl e \<Rightarrow> Inl e
      | Inr i \<Rightarrow>
          let ingredient = ingredients r ! i;
              new_amt = (random_uniform u2 (- (9/10)) (9/10) + 1) * amount ingredient
          in Inr (r\<lparr>ingredients := (ingredients r)[i := ingredient\<lparr>amount := new_amt\<rparr>]\<rparr>))"

text \<open>
  The inspiring set \<^verbatim>\<open>all_ingredients\<close> is a Python set of names; it is given as the
  list of its elements in the order \<^verbatim>\<open>tuple(...)\<close> enumerates them.
\<close>

definition add_ingredient :: "real \<Rightarrow> real \<Rightarrow> real \<Rightarrow> string list \<Rightarrow> Recipe \<Rightarrow> error + Recipe" where
  "add_ingredient u1 u2 u3 all_ingredients r =
     (let curr_ingredient_strs = map name (ingredients r);
          new_possible_ingredients =
            filter (\<lambda>n. n \<notin> set curr_ingredient_strs) all_ingredients
      in if length new_possible_ingredients = 0 then Inr r
         else case random_choice u1 new_possible_ingredients of
                Inl e \<Rightarrow> Inl e
              | Inr new_ingredient \<Rightarrow>
                  (case random_choice u2 all_ingredients of
                     Inl e \<Rightarrow> Inl e
                   | Inr new_name \<Rightarrow>
                       (case np_random_choice u3 [0..<100] of
                          Inl e \<Rightarrow> Inl e
                        | Inr new_amt \<Rightarrow>
                            Inr (r\<lparr>ingredients := ingredients r @
                                   [\<lparr>name = new_name, amount = real new_amt\<rparr>]\<rparr>))))"

definition delete_ingredient :: "real \<Rightarrow> Recipe \<Rightarrow> error + Recipe" where
  "delete_ingredient u r =
     (case random_choice_index u (ingredients r) of
        Inl e \<Rightarrow> Inl e
      | Inr i \<Rightarrow> Inr (r\<lparr>ingredients := remove_at i (ingredients r)\<rparr>))"

text \<open>\<open>swap_ingredient\<close> returns the recipe after the call and the renamed ingredient.\<close>

definition swap_ingredient :: "real \<Rightarrow> real \<Rightarrow> string list \<Rightarrow> Recipe \<Rightarrow> error + (Recipe \<times> Ingredient)" where
  "swap_ingredient u1 u2 all_ingredients r =
     (case random_choice_index u1 (ingredients r) of
        Inl e \<Rightarrow> Inl e
      | Inr i \<Rightarrow>
          let ingredient = ingredients r ! i;
              choices = filter (\<lambda>n. n \<noteq> name ingredient) all_ingredients
          in case random_choice u2 choices of
               Inl e \<Rightarrow> Inl e
             | Inr new_name \<Rightarrow>
                 let renamed = ingredient\<lparr>name := new_name\<rparr>
                 in Inr (r\<lparr>ingredients := (ingredients r)[i := renamed]\<rparr>, renamed))"

subsection \<open>normalize\<close>

text \<open>
  \<^verbatim>\<open>Recipe.normalize\<close> is \<open>normalize_recipe\<close> here. Its second loop walks \<^verbatim>\<open>self.ingredients\<close> with a list iterator, which
  is a position \<open>i\<close> into the list as it is at that moment, and removes from that same
  list: after a removal the iterator moves on to position \<open>i + 1\<close> of the shortened list.
\<close>

function normalize_loop :: "real \<Rightarrow> nat \<Rightarrow> Ingredient list \<Rightarrow> Ingredient list" where
  "normalize_loop sizing_factor i ings =
     (if i < length ings then
        (let ingredient = ings ! i; new_amt = amount ingredient * sizing_factor
         in if new_amt < 1/100 then normalize_loop sizing_factor (Suc i) (remove_at i ings)
            else normalize_loop sizing_factor (Suc i) (ings[i := ingredient\<lparr>amount := new_amt\<rparr>]))
      else ings)"
  by pat_completeness auto
termination
  by (relation "measure (\<lambda>(f, i, ings). length ings - i)") (auto simp: remove_at_def)

declare normalize_loop.simps [simp del]

definition current_total :: "Recipe \<Rightarrow> real" where
  "current_total r = sum_list (map amount (ingredients r))"

definition normalize_recipe :: "Recipe \<Rightarrow> error + Recipe" where
  "normalize_recipe r =
     (if current_total r = 100 then Inr r
      else if current_total r = 0 then Inl ZeroDivisionError
      else Inr (r\<lparr>ingredients := normalize_loop (100 / current_total r) 0 (ingredients r)\<rparr>))"

subsection \<open>mutate\<close>

text \<open>
  \<open>rng k\<close> is the \<open>k\<close>-th draw available to the call. \<^verbatim>\<open>np.random.choice([True, False],
  p=[0.4, 0.6])\<close> is True when the sample is below 0.4.
\<close>

definition mutate :: "(nat \<Rightarrow> real) \<Rightarrow> string list \<Rightarrow> Recipe \<Rightarrow> error + Recipe" where
  "mutate rng all_ingredients r =
     (if frac (rng 0) < 4/10 then
        (case np_random_randint (rng 1) 0 4 of
           Inl e \<Rightarrow> Inl e
         | Inr mutation \<Rightarrow>
             (case (if mutation = 0 then change_amount (rng 2) (rng 3) r
                    else if mutation = 1 then add_ingredient (rng 2) (rng 3) (rng 4) all_ingredients r
                    else if mutation = 2 then delete_ingredient (rng 2) r
                    else if mutation = 3 then
                      map_sum id fst (swap_ingredient (rng 2) (rng 3) all_ingredients r)
                    else Inr r) of
                Inl e \<Rightarrow> Inl e
              | Inr r' \<Rightarrow> normalize_recipe r'))
      else Inr r)"

section \<open>RecipeManager\<close>

record RecipeManager =
  recipes :: "Recipe list"
  num_new_recipes :: nat
  all_ingredients :: "string list"

text \<open>
  \<open>crossover_offspring\<close> is \<^verbatim>\<open>newRecipe\<close> as line 224 constructs it, before
  \<^verbatim>\<open>mutate\<close> is called on it.
\<close>

definition crossover_offspring :: "nat \<Rightarrow> nat \<Rightarrow> Recipe \<Rightarrow> Recipe \<Rightarrow> error + Recipe" where
  "crossover_offspring num_new pivot recipe1 recipe2 =
     (let recipe1_strs = get_ingredient_strings recipe1;
          recipe2_strs = get_ingredient_strings recipe2;
          cross = take pivot recipe1_strs @ drop pivot recipe2_strs
      in Recipe_init num_new cross)"

definition crossover :: "(nat \<Rightarrow> real) \<Rightarrow> RecipeManager \<Rightarrow> Recipe \<Rightarrow> Recipe \<Rightarrow> error + (RecipeManager \<times> Recipe)" where
  "crossover rng m recipe1 recipe2 =
     (let shortest_recipe_len = min (get_fitness recipe1) (get_fitness recipe2)
      in case np_random_randint (rng 0) 0 shortest_recipe_len of
           Inl e \<Rightarrow> Inl e
         | Inr pivot \<Rightarrow>
             (case crossover_offspring (num_new_recipes m) pivot recipe1 recipe2 of
                Inl e \<Rightarrow> Inl e
              | Inr newRecipe \<Rightarrow>
                  (case mutate (\<lambda>k. rng (k + 1)) (all_ingredients m) newRecipe of
                     Inl e \<Rightarrow> Inl e
                   | Inr mutated \<Rightarrow>
                       Inr (m\<lparr>num_new_recipes := num_new_recipes m + 1\<rparr>, mutated))))"

text \<open>\<^verbatim>\<open>sorted\<close> is stable, as \<open>sort_key\<close> is; \<^verbatim>\<open>int(len(recipes)/2)\<close> truncates.\<close>

definition fittest_half :: "Recipe list \<Rightarrow> Recipe list" where
  "fittest_half rs = drop (length rs div 2) (sort_key get_fitness rs)"

subsection \<open>Choosing the two parents\<close>

text \<open>
  \<^verbatim>\<open>np.random.choice(a, p=p, size=2, replace=False)\<close>. The library raises ValueError
  when \<open>a\<close> is empty, when \<open>p\<close> has another length, a negative entry or a sum other than 1,
  when \<open>a\<close> has fewer than 2 elements and when \<open>p\<close> has fewer than 2 positive entries.
  Otherwise it draws two samples, looks each up in the cumulative sums of \<open>p\<close>, and
  when both fall on one element sets that weight to 0 and draws the second again.
\<close>

fun cumsum_from :: "real \<Rightarrow> real list \<Rightarrow> real list" where
  "cumsum_from acc [] = []"
| "cumsum_from acc (x # xs) = (acc + x) # cumsum_from (acc + x) xs"

definition searchsorted_right :: "real list \<Rightarrow> real \<Rightarrow> nat" where
  "searchsorted_right cdf x = length (takeWhile (\<lambda>c. c \<le> x) cdf)"

definition weighted_index :: "real list \<Rightarrow> real \<Rightarrow> nat" where
  "weighted_index p u =
     (let cdf = cumsum_from 0 p
      in searchsorted_right (map (\<lambda>c. c / last cdf) cdf) (frac u))"

definition np_random_choice2 :: "real \<Rightarrow> real \<Rightarrow> real \<Rightarrow> 'a list \<Rightarrow> real list \<Rightarrow> error + ('a \<times> 'a)" where
  "np_random_choice2 u1 u2 u3 a p =
     (if a = [] then Inl ValueError
      else if length p \<noteq> length a then Inl ValueError
      else if list_ex (\<lambda>x. x < 0) p then Inl ValueError
      else if sum_list p \<noteq> 1 then Inl ValueError
      else if length a < 2 then Inl ValueError
      else if length (filter (\<lambda>x. 0 < x) p) < 2 then Inl ValueError
      else let i = weighted_index p u1; j = weighted_index p u2
           in if i \<noteq> j then Inr (a ! i, a ! j)
              else Inr (a ! i, a ! weighted_index (p[i := 0]) u3))"

text \<open>
  Lines 248 to 251 of \<open>genetic_algo\<close>. The division \<^verbatim>\<open>fit / sum_fit\<close> of two Python
  integers raises ZeroDivisionError when \<^verbatim>\<open>sum_fit\<close> is 0 and there is a fitness to
  divide.
\<close>

definition select_pair :: "real \<Rightarrow> real \<Rightarrow> real \<Rightarrow> Recipe list \<Rightarrow> error + (Recipe \<times> Recipe)" where
  "select_pair u1 u2 u3 rs =
     (let fitnesses = map get_fitness rs; sum_fit = sum_list fitnesses
      in if fitnesses \<noteq> [] \<and> sum_fit = 0 then Inl ZeroDivisionError
         else np_random_choice2 u1 u2 u3 rs (map (\<lambda>fit. real fit / real sum_fit) fitnesses))"

subsection \<open>One generation\<close>

text \<open>
  The loop of \<open>genetic_algo\<close> runs \<^verbatim>\<open>len(self.recipes)\<close> times; each round has nine
  draws at its disposal (three for the parents, one for the pivot, five for \<open>mutate\<close>).
\<close>

fun offspring :: "nat \<Rightarrow> (nat \<Rightarrow> real) \<Rightarrow> RecipeManager \<Rightarrow> Recipe list \<Rightarrow> error + (RecipeManager \<times> Recipe list)" where
  "offspring 0 rng m new_recipes = Inr (m, new_recipes)"
| "offspring (Suc n) rng m new_recipes =
     (case select_pair (rng 0) (rng 1) (rng 2) (recipes m) of
        Inl e \<Rightarrow> Inl e
      | Inr (recipe1, recipe2) \<Rightarrow>
          (case crossover (\<lambda>k. rng (k + 3)) m recipe1 recipe2 of
             Inl e \<Rightarrow> Inl e
           | Inr (m', new_recipe) \<Rightarrow>
               offspring n (\<lambda>k. rng (k + 9)) m' (new_recipes @ [new_recipe])))"

definition genetic_algo :: "(nat \<Rightarrow> real) \<Rightarrow> RecipeManager \<Rightarrow> error + RecipeManager" where
  "genetic_algo rng m =
     (case offspring (length (recipes m)) rng m [] of
        Inl e \<Rightarrow> Inl e
      | Inr (m', new_recipes) \<Rightarrow>
          Inr (m'\<lparr>recipes := fittest_half (recipes m') @ fittest_half new_recipes\<rparr>))"

section \<open>Notions used in the statements\<close>

text \<open>The sum of the amounts that the pairs \<open>ps\<close> give for the name \<open>k\<close>.\<close>

definition total_of :: "string \<Rightarrow> (string \<times> real) list \<Rightarrow> real" where
  "total_of k ps = sum_list (map snd (filter (\<lambda>p. fst p = k) ps))"

text \<open>
  The name that \<open>parse_line\<close> reads back from a line written for the name \<open>nm\<close>: the
  part of \<open>nm\<close> before its first \<^verbatim>\<open>" oz "\<close>, which is \<open>nm\<close> itself when \<open>nm\<close> has no
  blank.
\<close>

definition line_name :: "string \<Rightarrow> string" where
  "line_name nm = hd (split_oz nm)"


section \<open>Example data\<close>





section \<open>Facts about the random source\<close>

lemma randbelow_less: "0 < n \<Longrightarrow> randbelow u n < n"
proof -
  assume n: "0 < n"
  have f: "0 \<le> frac u" "frac u < 1" by (simp_all add: frac_lt_1)
  have "frac u * real n < real n" using f n by simp
  moreover have "0 \<le> frac u * real n" using f by simp
  ultimately have "\<lfloor>frac u * real n\<rfloor> < int n" by (simp add: floor_less_iff)
  moreover have "0 \<le> \<lfloor>frac u * real n\<rfloor>" using \<open>0 \<le> frac u * real n\<close> by simp
  ultimately show ?thesis unfolding randbelow_def by linarith
qed

section \<open>Mutation operators on an empty recipe\<close>

text \<open>
  Claim C3, as the code has it: on a recipe with an empty ingredient list none of
  \<open>change_amount\<close>, \<open>delete_ingredient\<close> and \<open>swap_ingredient\<close> returns. Each raises
  the exception of its random choice over the empty sequence: ValueError from
  \<^verbatim>\<open>np.random.choice\<close> in \<open>change_amount\<close>, IndexError from \<^verbatim>\<open>random.choice\<close> in the
  other two.
\<close>

theorem empty_recipe_mutations_raise:
  assumes "ingredients r = []"
  shows "change_amount u1 u2 r = Inl ValueError \<and>
         delete_ingredient u r = Inl IndexError \<and>
         swap_ingredient u1 u2 names r = Inl IndexError"
  using assms
  by (simp add: change_amount_def delete_ingredient_def swap_ingredient_def
      np_random_choice_index_def random_choice_index_def)

theorem empty_recipe_mutations_raise_witness:
  "ingredients \<lparr>recipe_name = ''recipe_7'', ingredients = []\<rparr> = [] \<and>
   change_amount (1/3) (1/4) \<lparr>recipe_name = ''recipe_7'', ingredients = []\<rparr> = Inl ValueError \<and>
   delete_ingredient (1/5) \<lparr>recipe_name = ''recipe_7'', ingredients = []\<rparr> = Inl IndexError \<and>
   swap_ingredient (1/3) (1/4) [''Gin'', ''Lime''] \<lparr>recipe_name = ''recipe_7'', ingredients = []\<rparr>
     = Inl IndexError"
  using empty_recipe_mutations_raise
    [of "\<lparr>recipe_name = ''recipe_7'', ingredients = []\<rparr>" "1/3" "1/4" "1/5" "[''Gin'', ''Lime'']"]
  by simp

text \<open>
  Claim C3 as the specification words it (each operator is a silent no-op on the empty
  recipe) fails: on the empty recipe \<^verbatim>\<open>recipe_0\<close> the three calls end in an exception.
\<close>

theorem empty_recipe_mutations_not_noop:
  "change_amount 0 0 \<lparr>recipe_name = ''recipe_0'', ingredients = []\<rparr> = Inl ValueError \<and>
   delete_ingredient 0 \<lparr>recipe_name = ''recipe_0'', ingredients = []\<rparr> = Inl IndexError \<and>
   swap_ingredient 0 0 [''Gin''] \<lparr>recipe_name = ''recipe_0'', ingredients = []\<rparr>
     = Inl IndexError"
  by (simp add: change_amount_def delete_ingredient_def swap_ingredient_def
      np_random_choice_index_def random_choice_index_def)

section \<open>normalize on a zero total\<close>

text \<open>
  Claim C2, as the code has it: when the amounts of a recipe sum to zero, \<open>normalize\<close>
  does not return. The total is not 100, so the division \<^verbatim>\<open>100 / current_total\<close> is
  reached and raises ZeroDivisionError, before any ingredient is changed.
\<close>

theorem normalize_zero_total_raises:
  assumes "current_total r = 0"
  shows "normalize_recipe r = Inl ZeroDivisionError"
  using assms by (simp add: normalize_recipe_def)

theorem normalize_zero_total_raises_witness:
  "current_total \<lparr>recipe_name = ''recipe_0'', ingredients = [\<lparr>name = ''Gin'', amount = 0\<rparr>]\<rparr> = 0 \<and>
   normalize_recipe \<lparr>recipe_name = ''recipe_0'', ingredients = [\<lparr>name = ''Gin'', amount = 0\<rparr>]\<rparr>
     = Inl ZeroDivisionError"
  using normalize_zero_total_raises
    [of "\<lparr>recipe_name = ''recipe_0'', ingredients = [\<lparr>name = ''Gin'', amount = 0\<rparr>]\<rparr>"]
  by (simp add: current_total_def)

text \<open>
  Claim C2 as the specification words it (a no-op that returns normally) fails on the
  empty recipe: its total is 0 and the call raises ZeroDivisionError.
\<close>

theorem normalize_empty_recipe_raises:
  "current_total \<lparr>recipe_name = ''recipe_0'', ingredients = []\<rparr> = 0 \<and>
   normalize_recipe \<lparr>recipe_name = ''recipe_0'', ingredients = []\<rparr> = Inl ZeroDivisionError"
  by (simp add: normalize_recipe_def current_total_def)

text \<open>
  An empty recipe reaches \<open>normalize\<close> in the program: \<open>mutate\<close> on an offspring of one
  ingredient, with the draws that choose \<open>delete_ingredient\<close>, deletes that ingredient and
  then normalizes the empty recipe.
\<close>

lemma mutate_delete_last_raises:
  "mutate (\<lambda>k. if k = 1 then 1/2 else 0) [''Gin'']
     \<lparr>recipe_name = ''recipe_2'', ingredients = [\<lparr>name = ''Gin'', amount = 100\<rparr>]\<rparr>
   = Inl ZeroDivisionError"
  by (simp add: mutate_def np_random_randint_def randbelow_def delete_ingredient_def
      random_choice_index_def remove_at_def normalize_recipe_def current_total_def)

section \<open>add_ingredient and duplicate names\<close>

text \<open>
  Claim C1 (\<open>add_ingredient\<close> never adds a name the recipe already has) against the code
  at a concrete input. The recipe holds Gin and the inspiring set is Gin and Lime, so
  Lime is the one name that may be added. Line 85 draws from the new names, but line 87
  draws the name that is used from the whole inspiring set: with the draw that selects
  Gin there, the call returns a recipe with two ingredients named Gin.
\<close>

theorem add_ingredient_duplicates_name:
  "add_ingredient 0 0 (1/2) [''Gin'', ''Lime'']
     \<lparr>recipe_name = ''recipe_0'', ingredients = [\<lparr>name = ''Gin'', amount = 1\<rparr>]\<rparr>
   = Inr \<lparr>recipe_name = ''recipe_0'',
          ingredients = [\<lparr>name = ''Gin'', amount = 1\<rparr>, \<lparr>name = ''Gin'', amount = 50\<rparr>]\<rparr> \<and>
   \<not> distinct (map name [\<lparr>name = ''Gin'', amount = 1\<rparr>, \<lparr>name = ''Gin'', amount = 50\<rparr>])"
  by (simp add: add_ingredient_def random_choice_def np_random_choice_def randbelow_def)

section \<open>Choosing the parents from a degenerate population\<close>

lemma np_random_choice2_short:
  "length a < 2 \<Longrightarrow> np_random_choice2 u1 u2 u3 a p = Inl ValueError"
  by (simp add: np_random_choice2_def)

lemma select_pair_zero_fitness:
  "rs \<noteq> [] \<Longrightarrow> sum_list (map get_fitness rs) = 0 \<Longrightarrow>
   select_pair u1 u2 u3 rs = Inl ZeroDivisionError"
  by (simp add: select_pair_def)

lemma select_pair_single:
  "length rs = 1 \<Longrightarrow> 0 < sum_list (map get_fitness rs) \<Longrightarrow>
   select_pair u1 u2 u3 rs = Inl ValueError"
  by (simp add: select_pair_def Let_def np_random_choice2_short del: sum_list_eq_0_iff)

lemma genetic_algo_select_fails:
  assumes "recipes m \<noteq> []" and "select_pair (rng 0) (rng 1) (rng 2) (recipes m) = Inl e"
  shows "genetic_algo rng m = Inl e"
proof -
  from assms(1) obtain n where n: "length (recipes m) = Suc n"
    by (cases "recipes m") auto
  show ?thesis using assms(2) by (simp add: genetic_algo_def n)
qed

lemma genetic_algo_empty: "recipes m = [] \<Longrightarrow> genetic_algo rng m = Inr m"
  by (simp add: genetic_algo_def fittest_half_def)

text \<open>
  Claim C4, as the code has it. The code has no DegenerateSelection error and no guard.
  For a non-empty population whose total fitness is zero the division
  \<^verbatim>\<open>fit / sum_fit\<close> raises ZeroDivisionError; for a population of one recipe with
  positive fitness \<^verbatim>\<open>np.random.choice\<close> raises ValueError, since it cannot take two
  of one without replacement; \<open>genetic_algo\<close> ends with that exception in both cases.
  On the empty population the loop of \<open>genetic_algo\<close> runs zero times, nothing is selected
  and the call returns the population as it was.
\<close>

theorem pair_selection_degenerate:
  "(rs \<noteq> [] \<and> sum_list (map get_fitness rs) = 0 \<longrightarrow>
      select_pair u1 u2 u3 rs = Inl ZeroDivisionError) \<and>
   (length rs = 1 \<and> 0 < sum_list (map get_fitness rs) \<longrightarrow>
      select_pair u1 u2 u3 rs = Inl ValueError) \<and>
   (recipes m \<noteq> [] \<and> sum_list (map get_fitness (recipes m)) = 0 \<longrightarrow>
      genetic_algo rng m = Inl ZeroDivisionError) \<and>
   (length (recipes m) = 1 \<and> 0 < sum_list (map get_fitness (recipes m)) \<longrightarrow>
      genetic_algo rng m = Inl ValueError) \<and>
   (recipes m = [] \<longrightarrow> genetic_algo rng m = Inr m)"
proof (intro conjI impI)
  assume "recipes m \<noteq> [] \<and> sum_list (map get_fitness (recipes m)) = 0"
  then show "genetic_algo rng m = Inl ZeroDivisionError"
    by (simp add: genetic_algo_select_fails select_pair_zero_fitness)
next
  assume a: "length (recipes m) = 1 \<and> 0 < sum_list (map get_fitness (recipes m))"
  then have "recipes m \<noteq> []" by auto
  then show "genetic_algo rng m = Inl ValueError"
    using a by (simp add: genetic_algo_select_fails select_pair_single)
qed (simp_all add: select_pair_zero_fitness select_pair_single genetic_algo_empty)

theorem pair_selection_degenerate_witness:
  "select_pair 0 0 0 [\<lparr>recipe_name = ''recipe_0'', ingredients = []\<rparr>,
                      \<lparr>recipe_name = ''recipe_1'', ingredients = []\<rparr>] = Inl ZeroDivisionError \<and>
   select_pair 0 0 0 [\<lparr>recipe_name = ''recipe_0'', ingredients = [\<lparr>name = ''Gin'', amount = 100\<rparr>]\<rparr>]
     = Inl ValueError \<and>
   genetic_algo real \<lparr>recipes = [\<lparr>recipe_name = ''recipe_0'', ingredients = []\<rparr>,
                                 \<lparr>recipe_name = ''recipe_1'', ingredients = []\<rparr>],
                      num_new_recipes = 2, all_ingredients = []\<rparr> = Inl ZeroDivisionError \<and>
   genetic_algo real \<lparr>recipes = [\<lparr>recipe_name = ''recipe_0'',
                                   ingredients = [\<lparr>name = ''Gin'', amount = 100\<rparr>]\<rparr>],
                      num_new_recipes = 1, all_ingredients = [''Gin'']\<rparr> = Inl ValueError \<and>
   genetic_algo real \<lparr>recipes = [], num_new_recipes = 0, all_ingredients = []\<rparr>
     = Inr \<lparr>recipes = [], num_new_recipes = 0, all_ingredients = []\<rparr>"
  using pair_selection_degenerate
    [of "[\<lparr>recipe_name = ''recipe_0'', ingredients = []\<rparr>,
          \<lparr>recipe_name = ''recipe_1'', ingredients = []\<rparr>]" 0 0 0
        "\<lparr>recipes = [\<lparr>recipe_name = ''recipe_0'', ingredients = []\<rparr>,
                     \<lparr>recipe_name = ''recipe_1'', ingredients = []\<rparr>],
          num_new_recipes = 2, all_ingredients = []\<rparr>" real]
    pair_selection_degenerate
    [of "[\<lparr>recipe_name = ''recipe_0'', ingredients = [\<lparr>name = ''Gin'', amount = 100\<rparr>]\<rparr>]" 0 0 0
        "\<lparr>recipes = [\<lparr>recipe_name = ''recipe_0'',
                       ingredients = [\<lparr>name = ''Gin'', amount = 100\<rparr>]\<rparr>],
          num_new_recipes = 1, all_ingredients = [''Gin'']\<rparr>" real]
    pair_selection_degenerate
    [of "[]" 0 0 0 "\<lparr>recipes = [], num_new_recipes = 0, all_ingredients = []\<rparr>" real]
  by (simp add: get_fitness_def)

text \<open>
  Claim C4 as the specification words it (a designated DegenerateSelection error rather
  than a division by zero, for every population of zero total fitness or of fewer than two
  recipes) fails: two recipes without ingredients give ZeroDivisionError, the unguarded
  arithmetic exception, and on the empty population a generation does not fail at all.
  The random source \<open>real\<close> has the draws 0, 1, 2 and so on.
\<close>

theorem pair_selection_divides_by_zero:
  "select_pair 0 0 0 [\<lparr>recipe_name = ''recipe_0'', ingredients = []\<rparr>,
                      \<lparr>recipe_name = ''recipe_1'', ingredients = []\<rparr>] = Inl ZeroDivisionError \<and>
   genetic_algo real \<lparr>recipes = [], num_new_recipes = 0, all_ingredients = []\<rparr>
     = Inr \<lparr>recipes = [], num_new_recipes = 0, all_ingredients = []\<rparr>"
  by (simp add: select_pair_def get_fitness_def genetic_algo_def fittest_half_def)

section \<open>swap_ingredient\<close>

text \<open>
  Claim C9: on a non-empty recipe, when the inspiring set has a name other than that of
  the selected ingredient (the one at the drawn position \<open>i\<close>), \<open>swap_ingredient\<close> returns,
  and the recipe it leaves differs from the old one at position \<open>i\<close> only, and there in the
  name only: the new name is in the inspiring set and is not the old name, the amount is
  the old amount, and the number of ingredients and all other ingredients are as before.
\<close>

theorem swap_ingredient_renames_only:
  assumes "ingredients r \<noteq> []"
    and "i = randbelow u1 (length (ingredients r))"
    and "\<exists>n \<in> set names. n \<noteq> name (ingredients r ! i)"
  shows "\<exists>r' new_name.
           swap_ingredient u1 u2 names r = Inr (r', (ingredients r ! i)\<lparr>name := new_name\<rparr>) \<and>
           i < length (ingredients r) \<and>
           new_name \<in> set names - {name (ingredients r ! i)} \<and>
           ingredients r' = (ingredients r)[i := (ingredients r ! i)\<lparr>name := new_name\<rparr>] \<and>
           name (ingredients r' ! i) = new_name \<and>
           amount (ingredients r' ! i) = amount (ingredients r ! i) \<and>
           length (ingredients r') = length (ingredients r) \<and>
           (\<forall>j < length (ingredients r). j \<noteq> i \<longrightarrow> ingredients r' ! j = ingredients r ! j) \<and>
           recipe_name r' = recipe_name r"
proof -
  let ?ings = "ingredients r"
  let ?choices = "filter (\<lambda>n. n \<noteq> name (?ings ! i)) names"
  have i: "i < length ?ings" using assms(1,2) by (simp add: randbelow_less)
  have ne: "?choices \<noteq> []" using assms(3) by (auto simp: filter_empty_conv)
  define new_name where "new_name = ?choices ! randbelow u2 (length ?choices)"
  have "randbelow u2 (length ?choices) < length ?choices"
    using ne by (simp add: randbelow_less)
  then have "new_name \<in> set ?choices"
    unfolding new_name_def by (rule nth_mem)
  then have mem: "new_name \<in> set names - {name (?ings ! i)}" by auto
  have sw: "swap_ingredient u1 u2 names r =
        Inr (r\<lparr>ingredients := ?ings[i := (?ings ! i)\<lparr>name := new_name\<rparr>]\<rparr>,
             (?ings ! i)\<lparr>name := new_name\<rparr>)"
    using assms(1,2) ne
    by (simp add: swap_ingredient_def random_choice_index_def random_choice_def Let_def
        new_name_def)
  show ?thesis
    using sw i mem
    by (intro exI[of _ "r\<lparr>ingredients := ?ings[i := (?ings ! i)\<lparr>name := new_name\<rparr>]\<rparr>"]
        exI[of _ new_name]) simp
qed

theorem swap_ingredient_renames_only_witness:
  "ingredients \<lparr>recipe_name = ''recipe_0'',
      ingredients = [\<lparr>name = ''Gin'', amount = 60\<rparr>, \<lparr>name = ''Lime'', amount = 40\<rparr>]\<rparr> \<noteq> [] \<and>
   (1::nat) = randbelow (1/2) 2 \<and>
   (\<exists>n \<in> set [''Gin'', ''Lime'', ''Mint'']. n \<noteq> ''Lime'') \<and>
   swap_ingredient (1/2) (1/2) [''Gin'', ''Lime'', ''Mint'']
     \<lparr>recipe_name = ''recipe_0'',
      ingredients = [\<lparr>name = ''Gin'', amount = 60\<rparr>, \<lparr>name = ''Lime'', amount = 40\<rparr>]\<rparr>
   = Inr (\<lparr>recipe_name = ''recipe_0'',
           ingredients = [\<lparr>name = ''Gin'', amount = 60\<rparr>, \<lparr>name = ''Mint'', amount = 40\<rparr>]\<rparr>,
          \<lparr>name = ''Mint'', amount = 40\<rparr>)"
  using swap_ingredient_renames_only
    [of "\<lparr>recipe_name = ''recipe_0'',
      ingredients = [\<lparr>name = ''Gin'', amount = 60\<rparr>, \<lparr>name = ''Lime'', amount = 40\<rparr>]\<rparr>"
      1 "1/2" "[''Gin'', ''Lime'', ''Mint'']" "1/2"]
  by (simp add: swap_ingredient_def random_choice_index_def random_choice_def randbelow_def
      Let_def)

section \<open>Survivor selection\<close>



















section \<open>Building a recipe from lines\<close>

lemma set_dic_add: "fst ` set (dic_add n a d) = insert n (fst ` set d)"
  by (induction n a d rule: dic_add.induct) (simp_all add: insert_commute)

lemma distinct_dic_add: "distinct (map fst d) \<Longrightarrow> distinct (map fst (dic_add n a d))"
proof (induction d)
  case Nil
  then show ?case by simp
next
  case (Cons p d)
  obtain k v where p: "p = (k, v)" by (cases p)
  have "k \<noteq> n \<Longrightarrow> k \<notin> fst ` set (dic_add n a d)"
    using Cons.prems by (auto simp: set_dic_add p)
  then show ?case using Cons by (auto simp: p)
qed

lemma total_of_dic_add: "total_of k (dic_add n a d) = total_of k d + (if k = n then a else 0)"
  by (induction d) (auto simp: total_of_def)

lemma total_of_distinct:
  "distinct (map fst d) \<Longrightarrow> (k, v) \<in> set d \<Longrightarrow> total_of k d = v"
proof (induction d)
  case Nil
  then show ?case by simp
next
  case (Cons p d)
  show ?case
  proof (cases "p = (k, v)")
    case True
    have "filter (\<lambda>q. fst q = k) d = []"
      using Cons.prems(1) True by (auto simp: filter_empty_conv)
    then show ?thesis using True by (simp add: total_of_def)
  next
    case False
    then have mem: "(k, v) \<in> set d" using Cons.prems(2) by simp
    then have "fst p \<noteq> k" using Cons.prems(1) by (cases p) force
    then show ?thesis using Cons.IH[OF _ mem] Cons.prems(1) by (simp add: total_of_def)
  qed
qed

lemma read_lines_sums:
  "read_lines ls d = Inr d' \<Longrightarrow>
   \<exists>ps. map parse_line ls = map Inr ps \<and>
        fst ` set d' = fst ` set d \<union> fst ` set ps \<and>
        (distinct (map fst d) \<longrightarrow> distinct (map fst d')) \<and>
        (\<forall>k. total_of k d' = total_of k d + total_of k ps)"
proof (induction ls arbitrary: d)
  case Nil
  then show ?case by (auto simp: total_of_def)
next
  case (Cons line ls)
  from Cons.prems obtain n a where
    pl: "parse_line line = Inr (n, a)" and rest: "read_lines ls (dic_add n a d) = Inr d'"
    by (auto split: sum.splits prod.splits)
  from Cons.IH[OF rest] obtain ps where
    ps: "map parse_line ls = map Inr ps"
    and keys: "fst ` set d' = fst ` set (dic_add n a d) \<union> fst ` set ps"
    and dist: "distinct (map fst (dic_add n a d)) \<longrightarrow> distinct (map fst d')"
    and tot: "\<forall>k. total_of k d' = total_of k (dic_add n a d) + total_of k ps"
    by blast
  have "map parse_line (line # ls) = map Inr ((n, a) # ps)" using pl ps by simp
  moreover have "fst ` set d' = fst ` set d \<union> fst ` set ((n, a) # ps)"
    using keys by (auto simp: set_dic_add)
  moreover have "distinct (map fst d) \<longrightarrow> distinct (map fst d')"
    using dist distinct_dic_add by blast
  moreover have "\<forall>k. total_of k ((n, a) # ps) = (if k = n then a else 0) + total_of k ps"
    by (simp add: total_of_def)
  then have "\<forall>k. total_of k d' = total_of k d + total_of k ((n, a) # ps)"
    using tot by (simp add: total_of_dic_add)
  ultimately show ?case by blast
qed

lemma recipe_of_two_gin:
  "Recipe_init num [''1 oz Gin'', ''2 oz Gin''] =
     Inr \<lparr>recipe_name = ''recipe_'' @ str_nat num, ingredients = [\<lparr>name = ''Gin'', amount = 3\<rparr>]\<rparr>"
  by (simp add: Recipe_init_def make_ingredient_objects_def parse_line_def float_py_def digit_of_def)

text \<open>
  Claim C8: when a recipe is built from lines, every line has parsed to a name and an
  amount; the names of the ingredients of the recipe are distinct and are the names of
  the lines, and the amount of each ingredient is the sum of the amounts of the lines of
  its name. The lines \<^verbatim>\<open>1 oz Gin\<close> and \<^verbatim>\<open>2 oz Gin\<close> give the one ingredient Gin with
  amount 3.
\<close>

theorem construction_merges_duplicate_names:
  "(Recipe_init num lines = Inr r \<longrightarrow>
      (\<exists>ps. map parse_line lines = map Inr ps \<and>
         distinct (map name (ingredients r)) \<and>
         set (map name (ingredients r)) = fst ` set ps \<and>
         (\<forall>ing \<in> set (ingredients r).
            amount ing = sum_list (map snd (filter (\<lambda>p. fst p = name ing) ps))))) \<and>
   Recipe_init num [''1 oz Gin'', ''2 oz Gin''] =
     Inr \<lparr>recipe_name = ''recipe_'' @ str_nat num, ingredients = [\<lparr>name = ''Gin'', amount = 3\<rparr>]\<rparr>"
proof (intro conjI impI)
  assume a: "Recipe_init num lines = Inr r"
  then obtain d where d: "read_lines lines [] = Inr d"
    and r: "ingredients r = map (\<lambda>(ingr, ingr_amt). \<lparr>name = ingr, amount = ingr_amt\<rparr>) d"
    by (auto simp: Recipe_init_def make_ingredient_objects_def split: sum.splits)
  from read_lines_sums[OF d] obtain ps where
    ps: "map parse_line lines = map Inr ps"
    and keys: "fst ` set d = fst ` set ps"
    and dist: "distinct (map fst d)"
    and tot: "\<forall>k. total_of k d = total_of k ps"
    by (auto simp: total_of_def)
  have names: "map name (ingredients r) = map fst d"
    by (simp add: r case_prod_unfold comp_def)
  have am: "\<forall>ing \<in> set (ingredients r).
            amount ing = sum_list (map snd (filter (\<lambda>p. fst p = name ing) ps))"
  proof
    fix ing assume "ing \<in> set (ingredients r)"
    then obtain k v where kv: "(k, v) \<in> set d" and ing: "ing = \<lparr>name = k, amount = v\<rparr>"
      by (auto simp: r)
    have "total_of k d = v" using total_of_distinct[OF dist kv] .
    then show "amount ing = sum_list (map snd (filter (\<lambda>p. fst p = name ing) ps))"
      using tot by (simp add: ing total_of_def)
  qed
  show "\<exists>ps. map parse_line lines = map Inr ps \<and>
         distinct (map name (ingredients r)) \<and>
         set (map name (ingredients r)) = fst ` set ps \<and>
         (\<forall>ing \<in> set (ingredients r).
            amount ing = sum_list (map snd (filter (\<lambda>p. fst p = name ing) ps)))"
    using ps dist keys am names by (intro exI[of _ ps]) simp
next
  show "Recipe_init num [''1 oz Gin'', ''2 oz Gin''] =
     Inr \<lparr>recipe_name = ''recipe_'' @ str_nat num, ingredients = [\<lparr>name = ''Gin'', amount = 3\<rparr>]\<rparr>"
    by (rule recipe_of_two_gin)
qed

theorem construction_merges_duplicate_names_witness:
  "Recipe_init 0 [''1.5 oz Gin'', ''30 oz Lime'', ''2.25 oz Gin''] =
     Inr \<lparr>recipe_name = ''recipe_0'',
          ingredients = [\<lparr>name = ''Gin'', amount = 15/4\<rparr>, \<lparr>name = ''Lime'', amount = 30\<rparr>]\<rparr> \<and>
   (\<exists>ps. map parse_line [''1.5 oz Gin'', ''30 oz Lime'', ''2.25 oz Gin''] = map Inr ps \<and>
      distinct [''Gin'', ''Lime''] \<and> set [''Gin'', ''Lime''] = fst ` set ps \<and>
      15/4 = sum_list (map snd (filter (\<lambda>p. fst p = ''Gin'') ps)) \<and>
      30 = sum_list (map snd (filter (\<lambda>p. fst p = ''Lime'') ps))) \<and>
   Recipe_init 0 [''1 oz Gin'', ''2 oz Gin''] =
     Inr \<lparr>recipe_name = ''recipe_0'', ingredients = [\<lparr>name = ''Gin'', amount = 3\<rparr>]\<rparr>"
proof -
  let ?r = "\<lparr>recipe_name = ''recipe_0'',
          ingredients = [\<lparr>name = ''Gin'', amount = 15/4\<rparr>, \<lparr>name = ''Lime'', amount = 30\<rparr>]\<rparr>"
  have s: "str_nat 0 = ''0''" by (simp add: str_nat.simps digit_char_def)
  have i: "Recipe_init 0 [''1.5 oz Gin'', ''30 oz Lime'', ''2.25 oz Gin''] = Inr ?r"
    by (simp add: Recipe_init_def make_ingredient_objects_def parse_line_def float_py_def
        digit_of_def s)
  note t = construction_merges_duplicate_names
    [of 0 "[''1.5 oz Gin'', ''30 oz Lime'', ''2.25 oz Gin'']" ?r]
  show ?thesis using t i by (simp add: s)
qed

section \<open>normalize on a non-zero total\<close>













section \<open>Applying normalize twice\<close>




section \<open>Crossover and the written form of the ingredients\<close>










lemma split_oz_no_blank: "CHR '' '' \<notin> set s \<Longrightarrow> split_oz s = [s]"
proof (induction s)
  case Nil
  then show ?case by simp
next
  case (Cons c s)
  then have c: "c \<noteq> CHR '' ''" and IH: "split_oz s = [s]" by auto
  have "take 4 (c # s) \<noteq> '' oz ''" using c by (auto simp: take_Cons')
  then show ?case using IH by simp
qed






lemma line_name_no_blank: "CHR '' '' \<notin> set nm \<Longrightarrow> line_name nm = nm"
  by (simp add: line_name_def split_oz_no_blank)













end
